theory Spec2Isabelle
  imports Complex_Main
begin

section \<open>JavaScript string primitives used by the routes\<close>

text \<open>
  A string is a list of characters, and a character is one of the code units U+0000 to
  U+00FF (ASCII and the Latin-1 supplement); text with a code unit beyond U+00FF is
  outside the model.

  \<open>toLowerCase\<close> maps \<open>A\<close> to \<open>Z\<close> and the Latin-1 capitals U+00C0 to U+00DE (U+00D7, the
  multiplication sign, is not a letter) to the letter 32 places further on, and leaves
  every other code unit alone; all its results are in the range of the model.

  \<open>toUpperCase\<close> maps \<open>a\<close> to \<open>z\<close> and the Latin-1 small letters U+00E0 to U+00FE (U+00F7,
  the division sign, is not a letter) to the letter 32 places before, and the sharp s
  U+00DF to the two letters \<open>SS\<close>. The capitals of the micro sign U+00B5 and of
  U+00FF are U+039C and U+0178, beyond the range of the model: the model leaves these two
  code units as they are, and what is proved of \<open>toUpperCase\<close> is stated for text without
  them.
\<close>

definition toLowerChar :: "char \<Rightarrow> char" where
  "toLowerChar c =
     (let n = (of_char c :: nat)
      in if (65 \<le> n \<and> n \<le> 90) \<or> (192 \<le> n \<and> n \<le> 222 \<and> n \<noteq> 215)
         then char_of (n + 32) else c)"

definition toUpperChar :: "char \<Rightarrow> string" where
  "toUpperChar c =
     (let n = (of_char c :: nat)
      in if (97 \<le> n \<and> n \<le> 122) \<or> (224 \<le> n \<and> n \<le> 254 \<and> n \<noteq> 247)
         then [char_of (n - 32)]
         else if n = 223 then ''SS''
         else [c])"

definition toLowerCase :: "string \<Rightarrow> string" where
  "toLowerCase s = map toLowerChar s"

definition toUpperCase :: "string \<Rightarrow> string" where
  "toUpperCase s = concat (map toUpperChar s)"

text \<open>\<open>s.startsWith(k)\<close> and \<open>s.includes(k)\<close>: \<open>k\<close> occurs in \<open>s\<close> as a contiguous run.\<close>

fun startsWith :: "string \<Rightarrow> string \<Rightarrow> bool" where
  "startsWith s [] = True"
| "startsWith [] (k # ks) = False"
| "startsWith (c # cs) (k # ks) = (c = k \<and> startsWith cs ks)"

fun str_includes :: "string \<Rightarrow> string \<Rightarrow> bool" where
  "str_includes [] k = (k = [])"
| "str_includes (c # cs) k = (startsWith (c # cs) k \<or> str_includes cs k)"

text \<open>\<open>keywords.some(keyword => message.includes(keyword))\<close>\<close>

definition includes_some :: "string \<Rightarrow> string list \<Rightarrow> bool" where
  "includes_some message keywords = list_ex (str_includes message) keywords"

text \<open>\<open>xs.join(sep)\<close>\<close>

fun join :: "string \<Rightarrow> string list \<Rightarrow> string" where
  "join sep [] = []"
| "join sep [x] = x"
| "join sep (x # y # ys) = x @ sep @ join sep (y # ys)"

text \<open>
  \<open>s.split(' ')\<close> with a one-character separator: the pieces between the separators,
  empty pieces included, so that the empty string splits into one empty piece.
\<close>

fun split_on :: "char \<Rightarrow> string \<Rightarrow> string list" where
  "split_on sep [] = [[]]"
| "split_on sep (c # cs) =
     (if c = sep then [] # split_on sep cs
      else (case split_on sep cs of
              [] \<Rightarrow> [[c]]
            | w # ws \<Rightarrow> (c # w) # ws))"

text \<open>
  \<open>[...new Set(xs)]\<close>: a Set keeps its elements in insertion order, and inserting an
  element that is already there changes nothing, so the first occurrence of each
  element survives.
\<close>

fun set_insert_all :: "'a list \<Rightarrow> 'a list \<Rightarrow> 'a list" where
  "set_insert_all acc [] = acc"
| "set_insert_all acc (x # xs) =
     set_insert_all (if List.member acc x then acc else acc @ [x]) xs"

definition spread_new_Set :: "'a list \<Rightarrow> 'a list" where
  "spread_new_Set xs = set_insert_all [] xs"

text \<open>Decimal rendering of a non-negative integer, as \<open>`${Date.now()}`\<close> prints it.\<close>

fun show_nat :: "nat \<Rightarrow> string" where
  "show_nat n =
     (if n < 10 then [char_of (48 + n)]
      else show_nat (n div 10) @ [char_of (48 + n mod 10)])"

declare show_nat.simps [simp del]


section \<open>The stateless requirements endpoint\<close>

datatype UiStyle = modern | minimalist | corporate

datatype Complexity = basic | intermediate | advanced

record TechnicalRequirements =
  database :: bool
  authentication :: bool
  externalApis :: "string list"

record RequirementsAnalysis =
  platforms :: "string list"
  coreFeatures :: "string list"
  uiStyle :: UiStyle
  complexity :: Complexity
  technicalRequirements :: TechnicalRequirements

text \<open>
  The value \<open>{ requirements, confidence }\<close> returned by the extractor. The confidence is
  a JavaScript number; it is modelled as a real, so the rounding of the floating-point
  product and sum is not part of the model.
\<close>

record Analysis =
  requirements :: RequirementsAnalysis
  confidence :: real

datatype ResponseType = type_clarification | type_confirmation | type_completion

record ConversationResponse =
  rtype :: ResponseType
  rmessage :: string
  questions :: "string list option"

record ProcessRequirementsRequest =
  body_transcript :: string
  body_history :: "(string \<times> string) list"
  body_currentState :: "string option"
  body_previousRequirements :: "string option"

record ProcessRequirementsResponse =
  res_requirements :: RequirementsAnalysis
  conversationResponse :: ConversationResponse
  nextState :: string

text \<open>The object literal \<open>featureKeywords\<close>; \<open>Object.entries\<close> lists it in this order.\<close>

definition featureKeywords :: "(string \<times> string list) list" where
  "featureKeywords =
     [(''todo'', [''task management'', ''reminders'', ''categories'', ''due dates'']),
      (''recipe'', [''ingredients'', ''cooking instructions'', ''shopping lists'', ''meal planning'']),
      (''fitness'', [''workouts'', ''exercise tracking'', ''progress charts'', ''health data'']),
      (''budget'', [''expense tracking'', ''categories'', ''spending analysis'', ''reports'']),
      (''social'', [''user profiles'', ''posts'', ''comments'', ''likes'', ''sharing'']),
      (''habit'', [''daily tracking'', ''streaks'', ''reminders'', ''progress visualization'']),
      (''meditation'', [''guided sessions'', ''timer'', ''progress tracking'', ''calming sounds'']),
      (''language'', [''flashcards'', ''lessons'', ''progress tracking'', ''quizzes''])]"

text \<open>The loop \<open>for (const [keyword, features] of Object.entries(featureKeywords))\<close>.\<close>

fun collectFeatures :: "string \<Rightarrow> string list \<Rightarrow> (string \<times> string list) list \<Rightarrow> string list" where
  "collectFeatures lowerTranscript acc [] = acc"
| "collectFeatures lowerTranscript acc ((keyword, features) # rest) =
     collectFeatures lowerTranscript
       (if str_includes lowerTranscript keyword then acc @ features else acc)
       rest"

text \<open>
  The body of \<open>analyzeTranscriptForRequirements\<close> computes the fields of its result one
  after the other from \<open>lowerTranscript\<close>; each of these computations is a definition of
  its own here, the sequence of conditional \<open>push\<close> calls written as a chain of lists.
\<close>

definition genericFeatures :: "string list" where
  "genericFeatures = [''user interface'', ''data management'', ''responsive design'']"

definition extractPlatforms :: "string \<Rightarrow> string list" where
  "extractPlatforms lowerTranscript =
     (let p0 = [];
          p1 = (if str_includes lowerTranscript ''web'' \<or> str_includes lowerTranscript ''website''
                then p0 @ [''web''] else p0);
          p2 = (if str_includes lowerTranscript ''android'' \<or> str_includes lowerTranscript ''mobile''
                then p1 @ [''android''] else p1);
          p3 = (if str_includes lowerTranscript ''ios'' \<or> str_includes lowerTranscript ''iphone''
                then p2 @ [''ios''] else p2)
      in if length p3 = 0 then p3 @ [''web''] else p3)"

definition extractCoreFeatures :: "string \<Rightarrow> string list" where
  "extractCoreFeatures lowerTranscript =
     (let found = collectFeatures lowerTranscript [] featureKeywords;
          feats = (if length found = 0 then genericFeatures else found)
      in take 5 (spread_new_Set feats))"

definition extractUiStyle :: "string \<Rightarrow> UiStyle" where
  "extractUiStyle lowerTranscript =
     (let s0 = modern;
          s1 = (if str_includes lowerTranscript ''minimalist'' \<or> str_includes lowerTranscript ''simple''
                then minimalist else s0)
      in if str_includes lowerTranscript ''corporate'' \<or> str_includes lowerTranscript ''professional''
         then corporate else s1)"

definition extractComplexity :: "string \<Rightarrow> Complexity" where
  "extractComplexity lowerTranscript =
     (let c0 = intermediate;
          c1 = (if str_includes lowerTranscript ''simple'' \<or> str_includes lowerTranscript ''basic''
                then basic else c0)
      in if str_includes lowerTranscript ''complex'' \<or> str_includes lowerTranscript ''advanced''
         then advanced else c1)"

definition extractExternalApis :: "string \<Rightarrow> string list" where
  "extractExternalApis lowerTranscript =
     (let a0 = [];
          a1 = (if str_includes lowerTranscript ''payment'' then a0 @ [''payment processing''] else a0);
          a2 = (if str_includes lowerTranscript ''map'' \<or> str_includes lowerTranscript ''location''
                then a1 @ [''maps/geolocation''] else a1);
          a3 = (if str_includes lowerTranscript ''notification''
                then a2 @ [''push notifications''] else a2)
      in if str_includes lowerTranscript ''social'' \<or> str_includes lowerTranscript ''share''
         then a3 @ [''social media''] else a3)"

text \<open>
  \<open>analyzeTranscriptForRequirements(transcript, history)\<close>. The value that
  \<open>Math.random()\<close> returns is the extra argument \<open>rnd\<close>.
\<close>

definition analyzeTranscriptForRequirements ::
  "string \<Rightarrow> (string \<times> string) list \<Rightarrow> real \<Rightarrow> Analysis" where
  "analyzeTranscriptForRequirements transcript history rnd =
     (let lowerTranscript = toLowerCase transcript;
          needsDatabase = (str_includes lowerTranscript ''data'' \<or> str_includes lowerTranscript ''storage''
                           \<or> str_includes lowerTranscript ''save'' \<or> str_includes lowerTranscript ''sync'');
          needsAuth = (str_includes lowerTranscript ''login'' \<or> str_includes lowerTranscript ''user''
                       \<or> str_includes lowerTranscript ''account'' \<or> str_includes lowerTranscript ''profile'')
      in \<lparr> requirements =
             \<lparr> platforms = extractPlatforms lowerTranscript,
               coreFeatures = extractCoreFeatures lowerTranscript,
               uiStyle = extractUiStyle lowerTranscript,
               complexity = extractComplexity lowerTranscript,
               technicalRequirements =
                 \<lparr> database = needsDatabase,
                   authentication = needsAuth,
                   externalApis = extractExternalApis lowerTranscript \<rparr> \<rparr>,
           confidence = rnd * 0.3 + 0.7 \<rparr>)"

definition show_Complexity :: "Complexity \<Rightarrow> string" where
  "show_Complexity c =
     (case c of basic \<Rightarrow> ''basic'' | intermediate \<Rightarrow> ''intermediate'' | advanced \<Rightarrow> ''advanced'')"

definition show_UiStyle :: "UiStyle \<Rightarrow> string" where
  "show_UiStyle u =
     (case u of modern \<Rightarrow> ''modern'' | minimalist \<Rightarrow> ''minimalist'' | corporate \<Rightarrow> ''corporate'')"

definition generateConversationResponse :: "Analysis \<Rightarrow> string \<Rightarrow> ConversationResponse" where
  "generateConversationResponse analysis currentState =
     (let reqs = requirements analysis; conf = confidence analysis
      in if conf < 0.8 then
           \<lparr> rtype = type_clarification,
             rmessage = ''I want to make sure I understand your requirements correctly. Could you provide more details about what you'd like your app to do?'',
             questions = Some [''What specific features are most important to you?'',
                               ''Which platforms do you need the app to work on?'',
                               ''Do you need user accounts or data storage?''] \<rparr>
         else if length (platforms reqs) = 0 then
           \<lparr> rtype = type_clarification,
             rmessage = ''I'd like to know which platforms you need your app to support.'',
             questions = Some [''Do you need a web app, mobile app, or both?'',
                               ''Should it work on iOS, Android, or both?''] \<rparr>
         else if length (coreFeatures reqs) \<ge> 3 \<and> conf \<ge> 0.8 then
           \<lparr> rtype = type_confirmation,
             rmessage = ''Great! I understand you want to create a '' @ show_Complexity (complexity reqs)
                        @ '' '' @ show_UiStyle (uiStyle reqs) @ ''-style app for ''
                        @ join '', '' (platforms reqs) @ '' with features like ''
                        @ join '', '' (take 3 (coreFeatures reqs)) @ ''. Does this sound correct?'',
             questions = Some [''Are these the main features you want?'',
                               ''Would you like to add any other features?'',
                               ''Should I proceed with generating the app?''] \<rparr>
         else
           \<lparr> rtype = type_clarification,
             rmessage = ''I'm getting a good understanding of what you want. To make sure I create the perfect app for you, could you tell me more about:'',
             questions = Some [''What's the primary goal of your app?'',
                               ''Who are the main users?'',
                               ''Are there any specific features you definitely want to include?''] \<rparr>)"

text \<open>
  The \<open>POST\<close> handler of the requirements route, for a body of the declared type
  \<open>ProcessRequirementsRequest\<close>; a \<open>currentState\<close> that is absent takes the default of
  the destructuring pattern.
\<close>

definition POST_requirements :: "ProcessRequirementsRequest \<Rightarrow> real \<Rightarrow> ProcessRequirementsResponse" where
  "POST_requirements body rnd =
     (let cur = (case body_currentState body of None \<Rightarrow> ''gathering_requirements'' | Some s \<Rightarrow> s);
          analysis = analyzeTranscriptForRequirements (body_transcript body) (body_history body) rnd;
          response = generateConversationResponse analysis cur
      in \<lparr> res_requirements = requirements analysis,
           conversationResponse = response,
           nextState = (if rtype response = type_completion then ''complete'' else cur) \<rparr>)"


section \<open>The conversation route\<close>

datatype Role = user | assistant

text \<open>
  A message's \<open>timestamp\<close> is the ISO-8601 text of an instant; the model keeps the
  instant itself, in milliseconds since the epoch, which is what
  \<open>new Date(timestamp).getTime()\<close> reads back from that text.
\<close>

record ConversationMessage =
  role :: Role
  content :: string
  timestamp :: int
  messageId :: string

datatype Step = greeting | requirement_gathering | clarification | confirmation | completion

text \<open>
  \<open>extractedRequirements\<close> has type \<open>any\<close>. It is \<open>null\<close> (\<open>None\<close>) or one of the
  objects that \<open>analyzeUserMessage\<close> builds and the spread operator merges: an object
  that may or may not have a \<open>platforms\<close> and a \<open>features\<close> property.
\<close>

record Requirements =
  req_platforms :: "string list option"
  req_features :: "string list option"

record Context =
  userPreferences :: "(string \<times> string) list"
  technicalConstraints :: "(string \<times> string) list"
  previousApps :: "string list option"

record ConversationState =
  conversationId :: string
  messages :: "ConversationMessage list"
  currentStep :: Step
  extractedRequirements :: "Requirements option"
  conv_context :: Context

text \<open>\<open>const conversations = new Map<string, ConversationState>()\<close>\<close>

type_synonym Store = "string \<rightharpoonup> ConversationState"

text \<open>
  What the clock and the random generator give while one message is built:
  \<open>new Date()\<close> for the timestamp, then \<open>Date.now()\<close> and
  \<open>Math.random().toString(36).substr(2, 9)\<close> for the identifier.
\<close>

record Stamp =
  stamp_time :: int
  stamp_now :: nat
  stamp_rand :: string

datatype error =
    InvalidAction  \<comment> \<open>status 400, \<open>Invalid action\<close>\<close>
  | NotFound       \<comment> \<open>status 404, \<open>Conversation not found\<close>\<close>
  | InternalError  \<comment> \<open>status 500, \<open>Failed to manage conversation\<close>\<close>

text \<open>
  The text that \<open>generateConversationSummary\<close> returns has three numbers in it; the
  model keeps the numbers.
\<close>

record Summary =
  sum_userMessages :: nat
  sum_aiResponses :: nat
  sum_seconds :: int

datatype payload =
    Started string ConversationMessage ConversationState
      \<comment> \<open>\<open>conversationId\<close>, \<open>message\<close>, \<open>currentState\<close>\<close>
  | Sent ConversationMessage ConversationMessage ConversationState "bool option"
      \<comment> \<open>\<open>userMessage\<close>, \<open>assistantMessage\<close>, \<open>currentState\<close>, \<open>requiresAction\<close>\<close>
  | Got ConversationState
  | Ended ConversationMessage "Requirements option" Summary
      \<comment> \<open>\<open>message\<close>, \<open>finalRequirements\<close>, \<open>conversationSummary\<close>\<close>

record AIResponse =
  ai_content :: string
  ai_nextStep :: Step
  ai_extractedRequirements :: "Requirements option"
  ai_requiresAction :: "bool option"

record MessageAnalysis =
  initialRequirements :: Requirements
  platformRequirements :: Requirements
  featureRequirements :: Requirements

definition generateConversationId :: "nat \<Rightarrow> string \<Rightarrow> string" where
  "generateConversationId now rnd = ''conv_'' @ show_nat now @ ''_'' @ rnd"

definition generateMessageId :: "nat \<Rightarrow> string \<Rightarrow> string" where
  "generateMessageId now rnd = ''msg_'' @ show_nat now @ ''_'' @ rnd"

definition containsAppIdea :: "string \<Rightarrow> bool" where
  "containsAppIdea message =
     includes_some message [''app'', ''application'', ''build'', ''create'', ''develop'', ''make'']"

definition containsPlatformInfo :: "string \<Rightarrow> bool" where
  "containsPlatformInfo message =
     includes_some message [''web'', ''mobile'', ''android'', ''ios'', ''iphone'', ''website'']"

definition containsFeatureInfo :: "string \<Rightarrow> bool" where
  "containsFeatureInfo message =
     includes_some message [''feature'', ''function'', ''do'', ''should'', ''need'', ''want'']"

definition containsConfirmation :: "string \<Rightarrow> bool" where
  "containsConfirmation message =
     includes_some message [''yes'', ''correct'', ''right'', ''exactly'', ''perfect'', ''good'']"

text \<open>The two lists that \<open>analyzeUserMessage\<close> builds, \<open>platforms\<close> and \<open>features\<close>.\<close>

definition messagePlatforms :: "string \<Rightarrow> string list" where
  "messagePlatforms lowerMessage =
     (let p0 = [];
          p1 = (if str_includes lowerMessage ''web'' then p0 @ [''web''] else p0);
          p2 = (if str_includes lowerMessage ''android'' \<or> str_includes lowerMessage ''mobile''
                then p1 @ [''android''] else p1)
      in if str_includes lowerMessage ''ios'' \<or> str_includes lowerMessage ''iphone''
         then p2 @ [''ios''] else p2)"

definition messageFeatures :: "string \<Rightarrow> string list" where
  "messageFeatures lowerMessage =
     (let f0 = [];
          f1 = (if str_includes lowerMessage ''login'' \<or> str_includes lowerMessage ''user''
                then f0 @ [''authentication''] else f0);
          f2 = (if str_includes lowerMessage ''data'' \<or> str_includes lowerMessage ''storage''
                then f1 @ [''database''] else f1);
          f3 = (if str_includes lowerMessage ''notification''
                then f2 @ [''push notifications''] else f2)
      in if str_includes lowerMessage ''social'' then f3 @ [''social features''] else f3)"

definition analyzeUserMessage :: "string \<Rightarrow> Context \<Rightarrow> MessageAnalysis" where
  "analyzeUserMessage message ctx =
     (let lowerMessage = toLowerCase message;
          ps = messagePlatforms lowerMessage;
          fs = messageFeatures lowerMessage
      in \<lparr> initialRequirements = \<lparr> req_platforms = Some ps, req_features = Some fs \<rparr>,
           platformRequirements = \<lparr> req_platforms = Some ps, req_features = None \<rparr>,
           featureRequirements = \<lparr> req_platforms = None, req_features = Some fs \<rparr> \<rparr>)"

text \<open>
  The object spread \<open>{ ...a, ...b }\<close>, where \<open>a\<close> may be \<open>null\<close> (spreading \<open>null\<close> adds
  nothing): every property of \<open>b\<close> overwrites the property of \<open>a\<close> with that name.
\<close>

definition spread :: "Requirements option \<Rightarrow> Requirements \<Rightarrow> Requirements" where
  "spread a b =
     (let a' = (case a of None \<Rightarrow> \<lparr> req_platforms = None, req_features = None \<rparr> | Some r \<Rightarrow> r)
      in \<lparr> req_platforms = (case req_platforms b of Some p \<Rightarrow> Some p | None \<Rightarrow> req_platforms a'),
           req_features = (case req_features b of Some f \<Rightarrow> Some f | None \<Rightarrow> req_features a') \<rparr>)"

definition generateAIResponse :: "ConversationState \<Rightarrow> string \<Rightarrow> AIResponse" where
  "generateAIResponse conversation userMessage =
     (let lowerMessage = toLowerCase userMessage;
          analysis = analyzeUserMessage userMessage (conv_context conversation)
      in case currentStep conversation of
           greeting \<Rightarrow>
             if containsAppIdea lowerMessage then
               \<lparr> ai_content = ''That sounds like a great app idea! I can help you build that. Let me ask a few questions to make sure I understand exactly what you need. Which platforms would you like this app to work on - web, mobile, or both?'',
                 ai_nextStep = requirement_gathering,
                 ai_extractedRequirements = Some (initialRequirements analysis),
                 ai_requiresAction = None \<rparr>
             else
               \<lparr> ai_content = ''I'd love to help you create an app! Could you tell me what kind of app you have in mind? For example, is it a todo app, a fitness tracker, a recipe manager, or something else entirely?'',
                 ai_nextStep = greeting,
                 ai_extractedRequirements = None,
                 ai_requiresAction = None \<rparr>
         | requirement_gathering \<Rightarrow>
             if containsPlatformInfo lowerMessage then
               \<lparr> ai_content = ''Perfect! Now, what specific features are most important to you? For example, do you need user accounts, data storage, notifications, or integration with other services?'',
                 ai_nextStep = requirement_gathering,
                 ai_extractedRequirements =
                   Some (spread (extractedRequirements conversation) (platformRequirements analysis)),
                 ai_requiresAction = None \<rparr>
             else if containsFeatureInfo lowerMessage then
               \<lparr> ai_content = ''Excellent! I'm getting a clear picture of what you want. Just to make sure I understand correctly, you want an app with [summarize features]. Is that right?'',
                 ai_nextStep = clarification,
                 ai_extractedRequirements =
                   Some (spread (extractedRequirements conversation) (featureRequirements analysis)),
                 ai_requiresAction = None \<rparr>
             else
               \<lparr> ai_content = ''I'm listening! Tell me more about what you'd like your app to do. What are the main features or functionality you need?'',
                 ai_nextStep = requirement_gathering,
                 ai_extractedRequirements = None,
                 ai_requiresAction = None \<rparr>
         | clarification \<Rightarrow>
             if containsConfirmation lowerMessage then
               \<lparr> ai_content = ''Wonderful! I have all the information I need to create your app. You can now generate the app, or if you'd like to make any changes, just let me know!'',
                 ai_nextStep = completion,
                 ai_extractedRequirements = None,
                 ai_requiresAction = Some True \<rparr>
             else
               \<lparr> ai_content = ''I want to make sure I get this exactly right. Could you clarify what you meant by [clarification point]?'',
                 ai_nextStep = clarification,
                 ai_extractedRequirements = None,
                 ai_requiresAction = None \<rparr>
         | _ \<Rightarrow>
             \<lparr> ai_content = ''I'm here to help you create your app! What would you like to discuss?'',
               ai_nextStep = greeting,
               ai_extractedRequirements = None,
               ai_requiresAction = None \<rparr>)"

definition greetingText :: string where
  "greetingText = ''Hello! I'm your AI app development assistant. I'd love to help you create your perfect app. To get started, could you tell me what kind of app you'd like to build?''"

definition closingText :: string where
  "closingText = ''Thank you for sharing your app idea! I have a good understanding of what you want to create. You can now proceed to generate your app, or feel free to ask me any other questions.''"

definition mkMessage :: "Role \<Rightarrow> string \<Rightarrow> Stamp \<Rightarrow> ConversationMessage" where
  "mkMessage r txt st =
     \<lparr> role = r, content = txt, timestamp = stamp_time st,
       messageId = generateMessageId (stamp_now st) (stamp_rand st) \<rparr>"

text \<open>
  Every handler takes the store and returns the store it leaves behind together with
  its response. \<open>handleStartConversation\<close> also takes what \<open>Date.now()\<close> and the random
  generator give for the conversation identifier.
\<close>

definition handleStartConversation ::
  "Store \<Rightarrow> string \<Rightarrow> nat \<Rightarrow> string \<Rightarrow> Stamp \<Rightarrow> Store \<times> (error + payload)" where
  "handleStartConversation conversations userId now rnd st =
     (let cid = generateConversationId now rnd;
          initialState =
            \<lparr> conversationId = cid,
              messages = [],
              currentStep = greeting,
              extractedRequirements = None,
              conv_context = \<lparr> userPreferences = [], technicalConstraints = [],
                          previousApps = Some [] \<rparr> \<rparr>;
          greetingMessage = mkMessage assistant greetingText st;
          initialState' = initialState \<lparr> messages := messages initialState @ [greetingMessage] \<rparr>
      in (conversations(cid \<mapsto> initialState'),
          Inr (Started cid greetingMessage initialState')))"

definition handleSendMessage ::
  "Store \<Rightarrow> string \<Rightarrow> string \<Rightarrow> Stamp \<Rightarrow> Stamp \<Rightarrow> Store \<times> (error + payload)" where
  "handleSendMessage conversations cid message st1 st2 =
     (case conversations cid of
        None \<Rightarrow> (conversations, Inl NotFound)
      | Some conversation \<Rightarrow>
          (let userMessage = mkMessage user message st1;
               c1 = conversation \<lparr> messages := messages conversation @ [userMessage] \<rparr>;
               aiResponse = generateAIResponse c1 message;
               assistantMessage = mkMessage assistant (ai_content aiResponse) st2;
               c2 = c1 \<lparr> messages := messages c1 @ [assistantMessage],
                         currentStep := ai_nextStep aiResponse \<rparr>;
               c3 = (case ai_extractedRequirements aiResponse of
                       Some r \<Rightarrow> c2 \<lparr> extractedRequirements := Some r \<rparr>
                     | None \<Rightarrow> c2)
           in (conversations(cid \<mapsto> c3),
               Inr (Sent userMessage assistantMessage c3 (ai_requiresAction aiResponse)))))"

definition handleGetConversation :: "Store \<Rightarrow> string \<Rightarrow> Store \<times> (error + payload)" where
  "handleGetConversation conversations cid =
     (case conversations cid of
        None \<Rightarrow> (conversations, Inl NotFound)
      | Some conversation \<Rightarrow> (conversations, Inr (Got conversation)))"

text \<open>\<open>Math.round(duration / 1000)\<close> rounds halves up.\<close>

definition generateConversationSummary :: "ConversationState \<Rightarrow> Summary" where
  "generateConversationSummary conversation =
     (let messageCount = length (messages conversation);
          userMessages = length (filter (\<lambda>m. role m = user) (messages conversation));
          duration = (if messageCount > 0
                      then timestamp (last (messages conversation))
                           - timestamp (hd (messages conversation))
                      else 0)
      in \<lparr> sum_userMessages = userMessages,
           sum_aiResponses = messageCount - userMessages,
           sum_seconds = (duration + 500) div 1000 \<rparr>)"

definition handleEndConversation :: "Store \<Rightarrow> string \<Rightarrow> Stamp \<Rightarrow> Store \<times> (error + payload)" where
  "handleEndConversation conversations cid st =
     (case conversations cid of
        None \<Rightarrow> (conversations, Inl NotFound)
      | Some conversation \<Rightarrow>
          (let closingMessage = mkMessage assistant closingText st;
               c1 = conversation \<lparr> messages := messages conversation @ [closingMessage],
                                   currentStep := completion \<rparr>
           in (conversations(cid \<mapsto> c1),
               Inr (Ended closingMessage (extractedRequirements c1)
                      (generateConversationSummary c1)))))"

text \<open>
  The request body of the conversation route, with the properties the handlers are
  declared to take, and the dispatch on \<open>action\<close>. The \<open>catch\<close> of \<open>POST\<close> answers an
  exception with \<open>InternalError\<close>; on arguments of the declared types no handler raises
  one, so no branch of the model returns it.
\<close>

record ConversationRequest =
  body_action :: string
  body_conversationId :: string
  body_message :: string
  body_userId :: string

definition POST_conversation ::
  "Store \<Rightarrow> ConversationRequest \<Rightarrow> nat \<Rightarrow> string \<Rightarrow> Stamp \<Rightarrow> Stamp \<Rightarrow> Store \<times> (error + payload)" where
  "POST_conversation conversations body now rnd st1 st2 =
     (if body_action body = ''start'' then
        handleStartConversation conversations (body_userId body) now rnd st1
      else if body_action body = ''send_message'' then
        handleSendMessage conversations (body_conversationId body) (body_message body) st1 st2
      else if body_action body = ''get_conversation'' then
        handleGetConversation conversations (body_conversationId body)
      else if body_action body = ''end_conversation'' then
        handleEndConversation conversations (body_conversationId body) st1
      else (conversations, Inl InvalidAction))"

text \<open>A run of \<open>send_message\<close> calls on one conversation, each with its text and stamps.\<close>

fun sendMessages :: "Store \<Rightarrow> string \<Rightarrow> (string \<times> Stamp \<times> Stamp) list \<Rightarrow> Store \<times> (error + payload) list" where
  "sendMessages conversations cid [] = (conversations, [])"
| "sendMessages conversations cid ((message, st1, st2) # rest) =
     (let (conversations', response) = handleSendMessage conversations cid message st1 st2;
          (conversations'', responses) = sendMessages conversations' cid rest
      in (conversations'', response # responses))"


section \<open>The app generator\<close>



definition stopWords :: "string list" where
  "stopWords = [''with'', ''that'', ''for'', ''and'', ''the'', ''app'', ''application'']"

text \<open>\<open>word.charAt(0).toUpperCase() + word.slice(1)\<close>\<close>

definition capitalize :: "string \<Rightarrow> string" where
  "capitalize word = toUpperCase (take 1 word) @ drop 1 word"

definition generateAppName :: "string \<Rightarrow> string" where
  "generateAppName idea =
     (let keywords = split_on CHR '' '' (toLowerCase idea);
          nameWords = take 2 (filter (\<lambda>word. length word > 3 \<and> \<not> List.member stopWords word) keywords)
      in if length nameWords = 0 then ''MyApp''
         else concat (map capitalize nameWords))"











section \<open>Example runs\<close>

text \<open>Concrete stamps, stores and calls, for evaluating the handlers.\<close>

definition stamp_a :: Stamp where
  "stamp_a = \<lparr> stamp_time = 1000, stamp_now = 7, stamp_rand = ''k3j9x0q1z'' \<rparr>"

definition stamp_b :: Stamp where
  "stamp_b = \<lparr> stamp_time = 2500, stamp_now = 8, stamp_rand = ''p0o9i8u7y'' \<rparr>"

definition store_started :: Store where
  "store_started = fst (handleStartConversation Map.empty ''alice'' 5 ''abc'' stamp_a)"

definition cid_started :: string where
  "cid_started = generateConversationId 5 ''abc''"

definition calls_to_completion :: "(string \<times> Stamp \<times> Stamp) list" where
  "calls_to_completion =
     [(''I want to build a todo app'', stamp_a, stamp_b),
      (''I need a login'', stamp_a, stamp_b),
      (''Yes, exactly'', stamp_a, stamp_b)]"

definition store_completed :: Store where
  "store_completed = fst (sendMessages store_started cid_started calls_to_completion)"

definition store_after_completion :: Store where
  "store_after_completion =
     fst (handleSendMessage store_completed cid_started ''Thanks a lot'' stamp_a stamp_b)"


section \<open>Facts about the string primitives\<close>

lemma startsWith_iff: "startsWith s k \<longleftrightarrow> (\<exists>q. s = k @ q)"
  by (induction s k rule: startsWith.induct) auto

text \<open>\<open>str_includes\<close> is the substring test.\<close>

lemma str_includes_iff: "str_includes s k \<longleftrightarrow> (\<exists>p q. s = p @ k @ q)"
proof (induction s)
  case Nil
  then show ?case by auto
next
  case (Cons c cs)
  show ?case
  proof
    assume "str_includes (c # cs) k"
    then consider "startsWith (c # cs) k" | "str_includes cs k" by auto
    then show "\<exists>p q. c # cs = p @ k @ q"
    proof cases
      case 1
      then obtain q where "c # cs = k @ q" by (auto simp: startsWith_iff)
      then have "c # cs = [] @ k @ q" by simp
      then show ?thesis by blast
    next
      case 2
      then obtain p q where "cs = p @ k @ q" using Cons.IH by blast
      then have "c # cs = (c # p) @ k @ q" by simp
      then show ?thesis by blast
    qed
  next
    assume "\<exists>p q. c # cs = p @ k @ q"
    then obtain p q where pq: "c # cs = p @ k @ q" by blast
    show "str_includes (c # cs) k"
    proof (cases p)
      case Nil
      with pq have "startsWith (c # cs) k" by (auto simp: startsWith_iff)
      then show ?thesis by simp
    next
      case (Cons a p')
      with pq have "cs = p' @ k @ q" by simp
      then have "str_includes cs k" using Cons.IH by blast
      then show ?thesis by simp
    qed
  qed
qed

lemma set_insert_all_distinct: "distinct acc \<Longrightarrow> distinct (set_insert_all acc xs)"
  by (induction xs arbitrary: acc) auto

lemma set_insert_all_set: "set (set_insert_all acc xs) = set acc \<union> set xs"
  by (induction xs arbitrary: acc) auto

lemma spread_new_Set_distinct: "distinct (spread_new_Set xs)"
  by (simp add: spread_new_Set_def set_insert_all_distinct)


section \<open>The requirement extractor\<close>

lemma collectFeatures_none:
  "\<not> list_ex (str_includes t) (map fst tbl) \<Longrightarrow> collectFeatures t acc tbl = acc"
  by (induction t acc tbl rule: collectFeatures.induct) auto

lemma extractPlatforms_nonempty: "extractPlatforms t \<noteq> []"
  by (simp add: extractPlatforms_def Let_def)

lemma extractPlatforms_default:
  "\<not> includes_some t [''web'', ''website'', ''android'', ''mobile'', ''ios'', ''iphone'']
   \<Longrightarrow> extractPlatforms t = [''web'']"
  by (simp add: extractPlatforms_def includes_some_def Let_def)

text \<open>
  Claim C4. A transcript whose lower-cased text contains none of \<open>web\<close>, \<open>website\<close>,
  \<open>android\<close>, \<open>mobile\<close>, \<open>ios\<close>, \<open>iphone\<close> gets the platforms \<open>[web]\<close> and nothing else;
  and whatever the transcript is, the platforms of the result are not empty.
\<close>

theorem C4_platforms_default_web:
  "(\<not> includes_some (toLowerCase transcript)
         [''web'', ''website'', ''android'', ''mobile'', ''ios'', ''iphone'']
     \<longrightarrow> platforms (requirements (analyzeTranscriptForRequirements transcript history rnd)) = [''web''])
   \<and> platforms (requirements (analyzeTranscriptForRequirements transcript history rnd)) \<noteq> []"
  by (simp add: analyzeTranscriptForRequirements_def Let_def extractPlatforms_nonempty
        extractPlatforms_default)

theorem C4_platforms_default_web_witness:
  "\<not> includes_some (toLowerCase ''Build me a Recipe manager'')
         [''web'', ''website'', ''android'', ''mobile'', ''ios'', ''iphone'']
   \<and> platforms (requirements (analyzeTranscriptForRequirements ''Build me a Recipe manager'' [] 0.5)) = [''web'']"
proof -
  have h: "\<not> includes_some (toLowerCase ''Build me a Recipe manager'')
         [''web'', ''website'', ''android'', ''mobile'', ''ios'', ''iphone'']"
    by code_simp
  from C4_platforms_default_web [of "''Build me a Recipe manager''" "[]" "0.5"] h
  show ?thesis by blast
qed

lemma extractCoreFeatures_length: "length (extractCoreFeatures t) \<le> 5"
  by (simp add: extractCoreFeatures_def Let_def)

lemma extractCoreFeatures_distinct: "distinct (extractCoreFeatures t)"
  by (simp add: extractCoreFeatures_def Let_def spread_new_Set_distinct)

lemma extractCoreFeatures_generic:
  assumes "\<not> includes_some t (map fst featureKeywords)"
  shows "extractCoreFeatures t = [''user interface'', ''data management'', ''responsive design'']"
proof -
  have "collectFeatures t [] featureKeywords = []"
    using assms by (simp add: includes_some_def collectFeatures_none)
  moreover have "spread_new_Set genericFeatures = genericFeatures"
    by (simp add: spread_new_Set_def genericFeatures_def)
  ultimately show ?thesis
    by (simp add: extractCoreFeatures_def genericFeatures_def)
qed

text \<open>
  Claim C5. For every transcript the \<open>coreFeatures\<close> of the result has at most 5 entries
  and no entry twice; when the lower-cased transcript contains none of the eight domain
  keywords, it is exactly the three generic features.
\<close>

theorem C5_coreFeatures_bounded_distinct:
  "length (coreFeatures (requirements (analyzeTranscriptForRequirements transcript history rnd))) \<le> 5
   \<and> distinct (coreFeatures (requirements (analyzeTranscriptForRequirements transcript history rnd)))
   \<and> (\<not> includes_some (toLowerCase transcript)
          [''todo'', ''recipe'', ''fitness'', ''budget'', ''social'', ''habit'', ''meditation'', ''language'']
      \<longrightarrow> coreFeatures (requirements (analyzeTranscriptForRequirements transcript history rnd))
          = [''user interface'', ''data management'', ''responsive design''])"
proof -
  have keys: "map fst featureKeywords =
     [''todo'', ''recipe'', ''fitness'', ''budget'', ''social'', ''habit'', ''meditation'', ''language'']"
    by (simp add: featureKeywords_def)
  have cf: "coreFeatures (requirements (analyzeTranscriptForRequirements transcript history rnd))
        = extractCoreFeatures (toLowerCase transcript)"
    by (simp add: analyzeTranscriptForRequirements_def Let_def)
  show ?thesis
    unfolding cf using extractCoreFeatures_length extractCoreFeatures_distinct
      extractCoreFeatures_generic [of "toLowerCase transcript"] keys
    by simp
qed

theorem C5_coreFeatures_bounded_distinct_witness:
  "\<not> includes_some (toLowerCase ''An App for my Dog'')
          [''todo'', ''recipe'', ''fitness'', ''budget'', ''social'', ''habit'', ''meditation'', ''language'']
   \<and> coreFeatures (requirements (analyzeTranscriptForRequirements ''An App for my Dog'' [] 0))
          = [''user interface'', ''data management'', ''responsive design'']"
proof -
  have h: "\<not> includes_some (toLowerCase ''An App for my Dog'')
          [''todo'', ''recipe'', ''fitness'', ''budget'', ''social'', ''habit'', ''meditation'', ''language'']"
    by code_simp
  from C5_coreFeatures_bounded_distinct [of "''An App for my Dog''" "[]" 0] h
  show ?thesis by blast
qed

text \<open>
  Claim C6. The type of the response is chosen this way: \<open>clarification\<close> when the
  confidence is below 0.8; otherwise \<open>clarification\<close> when there is no platform;
  otherwise \<open>confirmation\<close> when there are at least 3 core features and the confidence
  is at least 0.8; \<open>clarification\<close> in every other case.
\<close>

theorem C6_response_selector:
  "rtype (generateConversationResponse analysis currentState) =
     (if confidence analysis < 0.8 then type_clarification
      else if platforms (requirements analysis) = [] then type_clarification
      else if 3 \<le> length (coreFeatures (requirements analysis)) \<and> 0.8 \<le> confidence analysis
           then type_confirmation
      else type_clarification)"
  by (simp add: generateConversationResponse_def Let_def)

text \<open>
  Claim C9. \<open>generateConversationResponse\<close> never answers with the type
  \<open>completion\<close>, so the \<open>nextState\<close> that the endpoint returns is the \<open>currentState\<close>
  of the request, or \<open>gathering_requirements\<close> when the request has none.
\<close>

theorem C9_never_completion:
  "rtype (generateConversationResponse analysis currentState) \<noteq> type_completion
   \<and> rtype (conversationResponse (POST_requirements body rnd)) \<noteq> type_completion
   \<and> nextState (POST_requirements body rnd) =
       (case body_currentState body of None \<Rightarrow> ''gathering_requirements'' | Some s \<Rightarrow> s)"
proof -
  have a: "\<And>a c. rtype (generateConversationResponse a c) \<noteq> type_completion"
    by (simp add: generateConversationResponse_def Let_def)
  show ?thesis
    using a by (simp add: POST_requirements_def Let_def)
qed


section \<open>The conversation store and state machine\<close>

text \<open>
  Claim C7. Whatever the user identifier, \<open>start\<close> stores under the new identifier a
  conversation in step \<open>greeting\<close> whose history is exactly one message, the
  assistant's greeting, and whose \<open>extractedRequirements\<close> is \<open>null\<close>.
\<close>

theorem C7_start_creates_greeting:
  "\<exists>conv msg.
     handleStartConversation conversations userId now rnd st =
       (conversations(generateConversationId now rnd \<mapsto> conv),
        Inr (Started (generateConversationId now rnd) msg conv))
     \<and> fst (handleStartConversation conversations userId now rnd st) (generateConversationId now rnd)
         = Some conv
     \<and> currentStep conv = greeting
     \<and> messages conv = [msg]
     \<and> role msg = assistant
     \<and> content msg = greetingText
     \<and> extractedRequirements conv = None"
  by (simp add: handleStartConversation_def Let_def mkMessage_def)

text \<open>
  Claim C3. For an identifier that is not in the store, \<open>send_message\<close>,
  \<open>get_conversation\<close> and \<open>end_conversation\<close> each answer \<open>NotFound\<close> and return the
  store as it was.
\<close>

theorem C3_not_found_leaves_store:
  "conversations cid = None \<Longrightarrow>
     handleSendMessage conversations cid message st1 st2 = (conversations, Inl NotFound)
     \<and> handleGetConversation conversations cid = (conversations, Inl NotFound)
     \<and> handleEndConversation conversations cid st = (conversations, Inl NotFound)"
  by (simp add: handleSendMessage_def handleGetConversation_def handleEndConversation_def)

theorem C3_not_found_leaves_store_witness:
  "store_started ''conv_0_zzz'' = None
   \<and> store_started cid_started \<noteq> None
   \<and> handleSendMessage store_started ''conv_0_zzz'' ''hello'' stamp_a stamp_b = (store_started, Inl NotFound)
   \<and> handleGetConversation store_started ''conv_0_zzz'' = (store_started, Inl NotFound)
   \<and> handleEndConversation store_started ''conv_0_zzz'' stamp_a = (store_started, Inl NotFound)"
proof -
  have h: "store_started ''conv_0_zzz'' = None" by code_simp
  have h2: "store_started cid_started \<noteq> None" by code_simp
  from C3_not_found_leaves_store [of store_started "''conv_0_zzz''" "''hello''" stamp_a stamp_b stamp_a, OF h] h h2
  show ?thesis by blast
qed

lemma handleSendMessage_found:
  assumes "conversations cid = Some conv"
  shows "\<exists>conv' um am ra.
           handleSendMessage conversations cid message st1 st2 =
             (conversations(cid \<mapsto> conv'), Inr (Sent um am conv' ra))
           \<and> messages conv' = messages conv @ [um, am]
           \<and> um = mkMessage user message st1
           \<and> role am = assistant
           \<and> currentStep conv' =
               ai_nextStep (generateAIResponse (conv \<lparr> messages := messages conv @ [um] \<rparr>) message)"
  using assms
  by (simp add: handleSendMessage_def Let_def mkMessage_def split: option.splits)

lemma sendMessages_appends:
  "conversations cid = Some conv \<Longrightarrow>
     \<exists>conv' tail. fst (sendMessages conversations cid calls) cid = Some conv'
       \<and> messages conv' = messages conv @ tail
       \<and> map role tail = concat (replicate (length calls) [user, assistant])
       \<and> map content (filter (\<lambda>m. role m = user) tail) = map fst calls
       \<and> length (snd (sendMessages conversations cid calls)) = length calls
       \<and> list_all (\<lambda>r. \<not> isl r) (snd (sendMessages conversations cid calls))"
proof (induction calls arbitrary: conversations conv)
  case Nil
  then show ?case by simp
next
  case (Cons call calls)
  obtain message st1 st2 where call: "call = (message, st1, st2)" by (cases call) auto
  from handleSendMessage_found [of conversations cid conv message st1 st2, OF Cons.prems]
  obtain conv1 um am ra where
    step: "handleSendMessage conversations cid message st1 st2 =
             (conversations(cid \<mapsto> conv1), Inr (Sent um am conv1 ra))"
    and msgs: "messages conv1 = messages conv @ [um, am]"
    and um: "um = mkMessage user message st1" and am: "role am = assistant"
    by blast
  have "(conversations(cid \<mapsto> conv1)) cid = Some conv1" by simp
  from Cons.IH [of "conversations(cid \<mapsto> conv1)" conv1, OF this]
  obtain conv' tail where
    f: "fst (sendMessages (conversations(cid \<mapsto> conv1)) cid calls) cid = Some conv'"
    and m: "messages conv' = messages conv1 @ tail"
    and r: "map role tail = concat (replicate (length calls) [user, assistant])"
    and c: "map content (filter (\<lambda>m. role m = user) tail) = map fst calls"
    and l: "length (snd (sendMessages (conversations(cid \<mapsto> conv1)) cid calls)) = length calls"
    and a: "list_all (\<lambda>r. \<not> isl r) (snd (sendMessages (conversations(cid \<mapsto> conv1)) cid calls))"
    by blast
  have run: "sendMessages conversations cid (call # calls) =
          (fst (sendMessages (conversations(cid \<mapsto> conv1)) cid calls),
           Inr (Sent um am conv1 ra) # snd (sendMessages (conversations(cid \<mapsto> conv1)) cid calls))"
    by (simp add: call step split: prod.splits)
  have "messages conv' = messages conv @ ([um, am] @ tail)"
    using m msgs by simp
  moreover have "map role ([um, am] @ tail) = concat (replicate (length (call # calls)) [user, assistant])"
    using r um am by (simp add: mkMessage_def)
  moreover have "map content (filter (\<lambda>m. role m = user) ([um, am] @ tail)) = map fst (call # calls)"
    using c um am by (simp add: mkMessage_def call)
  ultimately show ?case
    using f l a unfolding run by (intro exI [of _ conv'] exI [of _ "[um, am] @ tail"]) simp
qed

text \<open>
  Claim C2. After \<open>start\<close> and then \<open>N\<close> calls of \<open>send_message\<close> on the conversation it
  created, every call has succeeded and the history has \<open>2 * N + 1\<close> messages: the
  assistant's greeting, then one user message and one assistant message per call, in
  that order, the user messages carrying the texts that were sent.
\<close>

theorem C2_history_length:
  "\<exists>conv. fst (sendMessages (fst (handleStartConversation conversations userId now rnd st))
                 (generateConversationId now rnd) calls) (generateConversationId now rnd) = Some conv
     \<and> length (messages conv) = 2 * length calls + 1
     \<and> map role (messages conv) = assistant # concat (replicate (length calls) [user, assistant])
     \<and> map content (filter (\<lambda>m. role m = user) (messages conv)) = map fst calls
     \<and> length (snd (sendMessages (fst (handleStartConversation conversations userId now rnd st))
                 (generateConversationId now rnd) calls)) = length calls
     \<and> list_all (\<lambda>r. \<not> isl r)
          (snd (sendMessages (fst (handleStartConversation conversations userId now rnd st))
                 (generateConversationId now rnd) calls))"
proof -
  let ?cid = "generateConversationId now rnd"
  let ?s0 = "fst (handleStartConversation conversations userId now rnd st)"
  obtain conv0 where s0: "?s0 ?cid = Some conv0"
    and m0: "messages conv0 = [mkMessage assistant greetingText st]"
    by (simp add: handleStartConversation_def Let_def)
  from sendMessages_appends [of ?s0 ?cid conv0 calls, OF s0]
  obtain conv' tail where
    f: "fst (sendMessages ?s0 ?cid calls) ?cid = Some conv'"
    and m: "messages conv' = messages conv0 @ tail"
    and r: "map role tail = concat (replicate (length calls) [user, assistant])"
    and c: "map content (filter (\<lambda>m. role m = user) tail) = map fst calls"
    and l: "length (snd (sendMessages ?s0 ?cid calls)) = length calls"
    and a: "list_all (\<lambda>r. \<not> isl r) (snd (sendMessages ?s0 ?cid calls))"
    by blast
  have "length tail = 2 * length calls"
    using arg_cong [OF r, of length] by (simp add: length_concat sum_list_replicate)
  then have "length (messages conv') = 2 * length calls + 1"
    using m m0 by simp
  moreover have "map role (messages conv') = assistant # concat (replicate (length calls) [user, assistant])"
    using m m0 r by (simp add: mkMessage_def)
  moreover have "map content (filter (\<lambda>m. role m = user) (messages conv')) = map fst calls"
    using m m0 c by (simp add: mkMessage_def)
  ultimately show ?thesis
    using f l a by (intro exI [of _ conv']) simp
qed

lemma generateAIResponse_default:
  "currentStep conv = completion \<or> currentStep conv = confirmation \<Longrightarrow>
     ai_nextStep (generateAIResponse conv message) = greeting
     \<and> ai_content (generateAIResponse conv message)
         = ''I'm here to help you create your app! What would you like to discuss?''
     \<and> ai_extractedRequirements (generateAIResponse conv message) = None"
  by (auto simp add: generateAIResponse_def Let_def)

text \<open>
  Claim C1, as the specification states it: a conversation in step \<open>completion\<close> stays
  there when \<open>send_message\<close> is called. The run below reaches \<open>completion\<close> through the
  state machine (app idea, feature request, confirmation); the next message puts the
  conversation back into \<open>greeting\<close>.
\<close>

theorem C1_counterexample:
  "map_option currentStep (store_completed cid_started) = Some completion
   \<and> map_option currentStep (store_after_completion cid_started) = Some greeting"
  by code_simp

text \<open>
  Claim C1, amended. The \<open>switch\<close> of \<open>generateAIResponse\<close> has no case for
  \<open>completion\<close>; its \<open>default\<close> branch answers with the generic prompt and sets the next
  step to \<open>greeting\<close>. So a \<open>send_message\<close> on a conversation in step \<open>completion\<close>
  appends the user message and the generic prompt, leaves the extracted requirements
  as they were, and moves the conversation to \<open>greeting\<close>.
\<close>

theorem C1_completion_restarts_at_greeting:
  assumes "conversations cid = Some conv" and "currentStep conv = completion"
  shows "\<exists>conv'. fst (handleSendMessage conversations cid message st1 st2) cid = Some conv'
           \<and> currentStep conv' = greeting
           \<and> extractedRequirements conv' = extractedRequirements conv
           \<and> map content (drop (length (messages conv)) (messages conv'))
               = [message, ''I'm here to help you create your app! What would you like to discuss?'']"
  using assms generateAIResponse_default [of "conv \<lparr> messages := messages conv @ [mkMessage user message st1] \<rparr>" message]
  by (simp add: handleSendMessage_def Let_def mkMessage_def)

theorem C1_completion_restarts_at_greeting_witness:
  "map_option currentStep (store_completed cid_started) = Some completion
   \<and> (\<exists>conv'. fst (handleSendMessage store_completed cid_started ''Thanks a lot'' stamp_a stamp_b) cid_started = Some conv'
         \<and> currentStep conv' = greeting)"
proof -
  have h: "map_option currentStep (store_completed cid_started) = Some completion" by code_simp
  then obtain conv where s: "store_completed cid_started = Some conv" and c: "currentStep conv = completion"
    by auto
  from C1_completion_restarts_at_greeting [of store_completed cid_started conv "''Thanks a lot''" stamp_a stamp_b, OF s c] h
  show ?thesis by blast
qed

lemma messagePlatforms_empty:
  "\<not> includes_some t [''web'', ''android'', ''mobile'', ''ios'', ''iphone''] \<Longrightarrow> messagePlatforms t = []"
  by (simp add: messagePlatforms_def includes_some_def Let_def)

text \<open>
  Claim C10. For a message whose lower-cased text contains none of \<open>web\<close>, \<open>android\<close>,
  \<open>mobile\<close>, \<open>ios\<close>, \<open>iphone\<close>, \<open>analyzeUserMessage\<close> returns an empty platforms list,
  with no fallback to \<open>web\<close>; when such a message carries an app idea and the
  conversation is in step \<open>greeting\<close>, \<open>send_message\<close> stores requirements whose
  platforms list is empty.
\<close>

theorem C10_empty_platforms_stored:
  assumes "\<not> includes_some (toLowerCase message) [''web'', ''android'', ''mobile'', ''ios'', ''iphone'']"
  shows "req_platforms (initialRequirements (analyzeUserMessage message ctx)) = Some []
         \<and> req_platforms (platformRequirements (analyzeUserMessage message ctx)) = Some []
         \<and> (conversations cid = Some conv \<and> currentStep conv = greeting
              \<and> containsAppIdea (toLowerCase message)
            \<longrightarrow> (\<exists>conv'. fst (handleSendMessage conversations cid message st1 st2) cid = Some conv'
                   \<and> map_option req_platforms (extractedRequirements conv') = Some (Some [])))"
  using messagePlatforms_empty [OF assms]
  by (simp add: analyzeUserMessage_def handleSendMessage_def generateAIResponse_def Let_def)

theorem C10_empty_platforms_stored_witness:
  "\<not> includes_some (toLowerCase ''I want to build a todo app'') [''web'', ''android'', ''mobile'', ''ios'', ''iphone'']
   \<and> (\<exists>conv'. fst (handleSendMessage store_started cid_started ''I want to build a todo app'' stamp_a stamp_b) cid_started = Some conv'
            \<and> map_option req_platforms (extractedRequirements conv') = Some (Some []))"
proof -
  have h: "\<not> includes_some (toLowerCase ''I want to build a todo app'') [''web'', ''android'', ''mobile'', ''ios'', ''iphone'']"
    by code_simp
  have a: "containsAppIdea (toLowerCase ''I want to build a todo app'')" by code_simp
  obtain conv where s: "store_started cid_started = Some conv" and g: "currentStep conv = greeting"
    by (simp add: store_started_def cid_started_def handleStartConversation_def Let_def)
  from C10_empty_platforms_stored [OF h, of _ store_started cid_started conv stamp_a stamp_b] h a s g
  show ?thesis by blast
qed


section \<open>The application name\<close>











text \<open>
  Further names: the stop words are recognised after lower-casing, empty pieces between
  two spaces are dropped by the length test, and Latin-1 letters are folded.
\<close>

lemma generateAppName_examples:
  "generateAppName ''WITH THAT'' = ''MyApp''"
  "generateAppName '''' = ''MyApp''"
  "generateAppName ''Fitness TRACKER  for runners'' = ''FitnessTracker''"
  "generateAppName ''budget'' = ''Budget''"
  "generateAppName (''CAF'' @ [CHR 0xC9] @ '' MENU'') = ''Caf'' @ [CHR 0xE9] @ ''Menu''"
  "generateAppName ([CHR 0xE9] @ ''cole maternelle'') = [CHR 0xC9] @ ''coleMaternelle''"
  "generateAppName ([CHR 0xDF] @ ''eta testing'') = ''SSetaTesting''"
  by code_simp+

end
